theory Spec2Isabelle
  imports Main "HOL-Library.Word"
begin

section \<open>JavaScript strings, byte buffers and values\<close>

text \<open>
  A JavaScript string is a sequence of UTF-16 code units; a Node \<open>Buffer\<close> is a sequence
  of bytes. The child's \<open>stdout\<close> has no encoding set, so every \<open>'data'\<close> event carries
  a \<open>Buffer\<close>.
\<close>

type_synonym byte = "8 word"
type_synonym jschar = "16 word"
type_synonym jsstring = "jschar list"

text \<open>An ASCII literal of the source, as a JavaScript string.\<close>

definition js :: "string \<Rightarrow> jsstring" where
  "js s = map (\<lambda>c. of_nat (of_char c)) s"

text \<open>The line terminator \<open>'\n'\<close> the stdout handler searches for.\<close>

definition NL :: jschar where
  "NL = 0x0A"

text \<open>
  \<open>String.prototype.indexOf\<close> for a one-character needle: the index of the first
  occurrence, or \<open>-1\<close>.
\<close>

definition indexOf :: "jsstring \<Rightarrow> jschar \<Rightarrow> int" where
  "indexOf s c = (if c \<in> set s then int (length (takeWhile (\<lambda>x. x \<noteq> c) s)) else - 1)"

text \<open>
  \<open>String.prototype.substring(start, end)\<close>: both indices are clamped to
  \<open>[0, length]\<close> and swapped when \<open>start > end\<close>. With one argument the end is the
  length of the string.
\<close>

definition substring :: "jsstring \<Rightarrow> int \<Rightarrow> int \<Rightarrow> jsstring" where
  "substring s a b =
     (let n = int (length s);
          a' = max 0 (min a n);
          b' = max 0 (min b n);
          lo = min a' b';
          hi = max a' b'
      in take (nat (hi - lo)) (drop (nat lo) s))"

definition substring_from :: "jsstring \<Rightarrow> int \<Rightarrow> jsstring" where
  "substring_from s a = substring s a (int (length s))"

text \<open>
  The code units \<open>String.prototype.trim\<close> removes: ECMAScript \<open>WhiteSpace\<close> (TAB, VT,
  FF, SP, NBSP, ZWNBSP and the Unicode space separators) and \<open>LineTerminator\<close> (LF, CR,
  LS, PS).
\<close>

definition is_js_whitespace :: "jschar \<Rightarrow> bool" where
  "is_js_whitespace c =
     (c \<in> set [0x09, 0x0A, 0x0B, 0x0C, 0x0D, 0x20, 0xA0, 0x1680,
                0x2000, 0x2001, 0x2002, 0x2003, 0x2004, 0x2005, 0x2006,
                0x2007, 0x2008, 0x2009, 0x200A,
                0x2028, 0x2029, 0x202F, 0x205F, 0x3000, 0xFEFF])"

definition trim :: "jsstring \<Rightarrow> jsstring" where
  "trim s = rev (dropWhile is_js_whitespace (rev (dropWhile is_js_whitespace s)))"

subsection \<open>Decoding a \<open>Buffer\<close>: \<open>data.toString()\<close>\<close>

text \<open>
  \<open>Buffer.prototype.toString()\<close> decodes the bytes of that one buffer as UTF-8. A byte
  sequence that is not valid UTF-8, also one cut short by the end of the buffer, is
  replaced by U+FFFD. The decoder is the usual state machine: the code point collected
  so far, the number of continuation bytes still expected, and the range allowed for the
  next continuation byte.
\<close>

record utf8_state =
  code_point :: nat
  bytes_needed :: nat
  lower_bound :: nat
  upper_bound :: nat

definition utf8_init :: utf8_state where
  "utf8_init = \<lparr>code_point = 0, bytes_needed = 0, lower_bound = 0x80, upper_bound = 0xBF\<rparr>"

text \<open>A byte read when no sequence is open: the code points emitted and the next state.\<close>

definition utf8_lead :: "nat \<Rightarrow> nat list \<times> utf8_state" where
  "utf8_lead b =
     (if b \<le> 0x7F then ([b], utf8_init)
      else if 0xC2 \<le> b \<and> b \<le> 0xDF then
        ([], utf8_init\<lparr>code_point := b mod 0x20, bytes_needed := 1\<rparr>)
      else if 0xE0 \<le> b \<and> b \<le> 0xEF then
        ([], utf8_init\<lparr>code_point := b mod 0x10, bytes_needed := 2,
                       lower_bound := (if b = 0xE0 then 0xA0 else 0x80),
                       upper_bound := (if b = 0xED then 0x9F else 0xBF)\<rparr>)
      else if 0xF0 \<le> b \<and> b \<le> 0xF4 then
        ([], utf8_init\<lparr>code_point := b mod 0x08, bytes_needed := 3,
                       lower_bound := (if b = 0xF0 then 0x90 else 0x80),
                       upper_bound := (if b = 0xF4 then 0x8F else 0xBF)\<rparr>)
      else ([0xFFFD], utf8_init))"

fun utf8_decode :: "utf8_state \<Rightarrow> nat list \<Rightarrow> nat list" where
  "utf8_decode st [] = (if bytes_needed st = 0 then [] else [0xFFFD])"
| "utf8_decode st (b # bs) =
     (if bytes_needed st = 0 then
        (case utf8_lead b of (out, st') \<Rightarrow> out @ utf8_decode st' bs)
      else if lower_bound st \<le> b \<and> b \<le> upper_bound st then
        (let cp = code_point st * 0x40 + b mod 0x40 in
         if bytes_needed st = 1 then cp # utf8_decode utf8_init bs
         else utf8_decode (st\<lparr>code_point := cp, bytes_needed := bytes_needed st - 1,
                                lower_bound := 0x80, upper_bound := 0xBF\<rparr>) bs)
      else
        (case utf8_lead b of (out, st') \<Rightarrow> 0xFFFD # out @ utf8_decode st' bs))"

text \<open>A code point as UTF-16 code units: one unit, or a surrogate pair above U+FFFF.\<close>

definition utf16_units :: "nat \<Rightarrow> jsstring" where
  "utf16_units cp =
     (if cp < 0x10000 then [of_nat cp]
      else [of_nat (0xD800 + (cp - 0x10000) div 0x400),
            of_nat (0xDC00 + (cp - 0x10000) mod 0x400)])"

definition toString :: "byte list \<Rightarrow> jsstring" where
  "toString data = concat (map utf16_units (utf8_decode utf8_init (map unat data)))"

text \<open>The values of JavaScript (numbers restricted to the integers and \<open>NaN\<close>).\<close>

datatype jsval =
    Undefined
  | Null
  | Boolean bool
  | Num int
  | NaN
  | Str jsstring
  | Arr "jsval list"
  | Obj "(jsstring \<times> jsval) list"

fun truthy :: "jsval \<Rightarrow> bool" where
  "truthy Undefined = False"
| "truthy Null = False"
| "truthy (Boolean b) = b"
| "truthy (Num n) = (n \<noteq> 0)"
| "truthy NaN = False"
| "truthy (Str s) = (s \<noteq> [])"
| "truthy (Arr xs) = True"
| "truthy (Obj kvs) = True"

section \<open>The host: library functions and the environment\<close>

text \<open>
  The Node and VS Code functions the manager calls are parameters of the model:
  \<open>path.isAbsolute\<close>, \<open>path.join\<close> and \<open>path.delimiter\<close> (they differ between
  platforms), \<open>JSON.parse\<close> and \<open>JSON.stringify\<close> (\<open>None\<close> when they throw), whether a
  message callback throws on a response, and whether a write to a child's \<open>stdin\<close>
  throws. A callback is known by its identity only.
\<close>

type_synonym callback = nat

record host =
  path_isAbsolute :: "jsstring \<Rightarrow> bool"
  path_join :: "jsstring list \<Rightarrow> jsstring"
  path_delimiter :: jsstring
  json_parse :: "jsstring \<Rightarrow> jsval option"
  json_stringify :: "jsval \<Rightarrow> jsstring option"
  callback_throws :: "callback \<Rightarrow> jsval \<Rightarrow> bool"
  stdin_write_throws :: "nat \<Rightarrow> jsstring \<Rightarrow> bool"

text \<open>
  What \<open>start\<close> reads from the configuration, the workspace and the process
  environment. \<open>None\<close> is \<open>undefined\<close>.
\<close>

record config =
  defaultInterpreterPath :: "jsstring option"
  variableExplorer_pythonPath :: "jsstring option"
  platform_win32 :: bool
  extensionPath :: jsstring
  workspaceFolder :: "jsstring option"
  extraPaths :: "jsstring list option"
  env_PYTHONPATH :: "jsstring option"
  captureMainLocals :: jsval

text \<open>Truthiness of a value that is a string or \<open>undefined\<close>.\<close>

definition truthy_str :: "jsstring option \<Rightarrow> bool" where
  "truthy_str v = (case v of None \<Rightarrow> False | Some s \<Rightarrow> s \<noteq> [])"

text \<open>\<open>Array.prototype.join(separator)\<close> on an array of strings.\<close>

fun array_join :: "jsstring list \<Rightarrow> jsstring \<Rightarrow> jsstring" where
  "array_join [] sep = []"
| "array_join [x] sep = x"
| "array_join (x # y # ys) sep = x @ sep @ array_join (y # ys) sep"

definition startsWith :: "jsstring \<Rightarrow> jsstring \<Rightarrow> bool" where
  "startsWith s p = (take (length p) s = p)"

section \<open>PYTHONPATH construction\<close>

text \<open>\<open>src/pythonManager.js\<close>, lines 42 to 57.\<close>

definition resolvedPaths :: "host \<Rightarrow> config \<Rightarrow> jsstring list" where
  "resolvedPaths h c =
     map (\<lambda>p. if path_isAbsolute h p then p
              else (case workspaceFolder c of
                      None \<Rightarrow> p
                    | Some w \<Rightarrow> if w \<noteq> [] then path_join h [w, p] else p))
         (case extraPaths c of None \<Rightarrow> [] | Some ps \<Rightarrow> ps)"

definition extensionPythonPath :: "host \<Rightarrow> config \<Rightarrow> jsstring" where
  "extensionPythonPath h c = path_join h [extensionPath c, js ''python'']"

definition pythonPathParts :: "jsstring list \<Rightarrow> host \<Rightarrow> config \<Rightarrow> jsstring list" where
  "pythonPathParts resolved h c =
     (let parts = resolved @ [extensionPythonPath h c]
      in case env_PYTHONPATH c of
           None \<Rightarrow> parts
         | Some e \<Rightarrow> if e \<noteq> [] then parts @ [e] else parts)"

definition pythonPathEnv :: "host \<Rightarrow> config \<Rightarrow> jsstring" where
  "pythonPathEnv h c = array_join (pythonPathParts (resolvedPaths h c) h c) (path_delimiter h)"

text \<open>
  The second version of \<open>start\<close> in the repository, the one with \<open>addSubdirs\<close>
  (lines 39 to 74 of that file): before the
  extension path is appended, every qualifying subdirectory of the workspace is pushed
  onto \<open>resolvedPaths\<close>, read from the file system with \<open>fs.readdirSync\<close>.

  A directory listing is a list of entries; a directory entry carries its own listing,
  \<open>None\<close> when \<open>readdirSync\<close> throws on it.
\<close>

datatype dirent =
    OtherEntry jsstring
  | DirEntry jsstring "dirent list option"

definition scanned_name :: "jsstring \<Rightarrow> bool" where
  "scanned_name name =
     (\<not> startsWith name (js ''.'') \<and>
      \<not> startsWith name (js ''__'') \<and>
      name \<noteq> js ''node_modules'' \<and>
      name \<noteq> js ''venv'' \<and>
      name \<noteq> js ''.git'')"

text \<open>
  \<open>addSubdirs dir depth\<close>: the accumulator is \<open>resolvedPaths\<close>, mutated by \<open>push\<close>; the
  boolean tells whether an exception escaped. What was pushed before the exception
  stays pushed.
\<close>

fun addSubdirs :: "host \<Rightarrow> jsstring \<Rightarrow> dirent list option \<Rightarrow> nat \<Rightarrow> jsstring list
                     \<Rightarrow> jsstring list \<times> bool"
  and addSubdirs_entries :: "host \<Rightarrow> jsstring \<Rightarrow> dirent list \<Rightarrow> nat \<Rightarrow> jsstring list
                     \<Rightarrow> jsstring list \<times> bool" where
  "addSubdirs h dir listing depth acc =
     (if depth > 5 then (acc, False)
      else (case listing of
              None \<Rightarrow> (acc, True)
            | Some entries \<Rightarrow> addSubdirs_entries h dir entries depth acc))"
| "addSubdirs_entries h dir [] depth acc = (acc, False)"
| "addSubdirs_entries h dir (OtherEntry name # es) depth acc =
     addSubdirs_entries h dir es depth acc"
| "addSubdirs_entries h dir (DirEntry name sub # es) depth acc =
     (if scanned_name name then
        (let subdir = path_join h [dir, name] in
         case addSubdirs h subdir sub (depth + 1) (acc @ [subdir]) of
           (acc', True) \<Rightarrow> (acc', True)
         | (acc', False) \<Rightarrow> addSubdirs_entries h dir es depth acc')
      else addSubdirs_entries h dir es depth acc)"

definition resolvedPaths_variant :: "host \<Rightarrow> config \<Rightarrow> dirent list option \<Rightarrow> jsstring list" where
  "resolvedPaths_variant h c root_listing =
     (case workspaceFolder c of
        None \<Rightarrow> resolvedPaths h c
      | Some w \<Rightarrow>
          if w \<noteq> [] then fst (addSubdirs h w root_listing 0 (resolvedPaths h c))
          else resolvedPaths h c)"

definition pythonPathEnv_variant :: "host \<Rightarrow> config \<Rightarrow> dirent list option \<Rightarrow> jsstring" where
  "pythonPathEnv_variant h c root_listing =
     array_join (pythonPathParts (resolvedPaths_variant h c root_listing) h c) (path_delimiter h)"

section \<open>The session: \<open>class PythonManager\<close>\<close>

text \<open>
  A child process handle, as \<open>spawn\<close> returns it: its identity, and whether its
  \<open>stdin\<close> stream exists.
\<close>

record child =
  pid :: nat
  stdin_present :: bool

text \<open>
  The messages of \<open>console.log\<close> and \<open>console.error\<close>, and those shown to the user
  with \<open>showErrorMessage\<close> and \<open>showWarningMessage\<close>, by what they report: the
  interpreter and script being started, the error message of the child, the first
  hundred characters and the length of a line that could not be handled, the exit code,
  the kind of the command that could not be sent.
\<close>

datatype log_message =
    AlreadyRunning
  | StartingBackend jsstring jsstring
  | SpawnFailed
  | ProcessError jsstring
  | ParseError jsstring int
  | ExitedWithCode "int option"
  | NotRunningCannotSend jsval
  | SendError

datatype user_message =
    FailedToStartBackend jsstring
  | FailedToStartPython jsstring
  | ExitedUnexpectedly "int option"
  | FailedToCommunicate

text \<open>
  Everything the manager does to the outside, in the order it happens. \<open>Spawn\<close> is a
  call of \<open>spawn\<close> that returned a child (with the executable, the script, the working
  directory and the PYTHONPATH passed); \<open>Invoke\<close> is a call of the message callback;
  \<open>ChildClosed\<close> is not an effect of the manager but the \<open>'close'\<close> event of a child,
  recorded when a run delivers it.
\<close>

datatype effect =
    ConsoleLog log_message
  | ConsoleError log_message
  | ShowErrorMessage user_message
  | ShowWarningMessage user_message
  | Spawn child jsstring jsstring "jsstring option" jsstring
  | Kill nat
  | StdinWrite nat jsstring
  | Invoke callback jsval
  | ChildClosed nat "int option"

record session =
  process :: "child option"
  messageCallback :: "callback option"
  outputBuffer :: jsstring
  trace :: "effect list"

text \<open>The constructor.\<close>

definition new_session :: session where
  "new_session = \<lparr>process = None, messageCallback = None, outputBuffer = [], trace = []\<rparr>"

definition emit :: "effect list \<Rightarrow> session \<Rightarrow> session" where
  "emit es s = s\<lparr>trace := trace s @ es\<rparr>"

subsection \<open>\<open>start\<close>\<close>

definition choose_pythonPath :: "config \<Rightarrow> jsstring" where
  "choose_pythonPath c =
     (let p1 = defaultInterpreterPath c;
          p2 = (if \<not> truthy_str p1 then variableExplorer_pythonPath c else p1);
          fallback = (if platform_win32 c then js ''python'' else js ''python3'')
      in case p2 of
           None \<Rightarrow> fallback
         | Some p \<Rightarrow> if p \<noteq> [] then p else fallback)"

text \<open>
  \<open>start(onMessage)\<close>. The third argument is what \<open>spawn\<close> does if it is called: it
  throws (\<open>None\<close>) or returns a child. The three \<open>on\<close> registrations have no effect of
  their own: the events of the child are the handlers below.
\<close>

definition start :: "host \<Rightarrow> config \<Rightarrow> child option \<Rightarrow> callback option \<Rightarrow> session \<Rightarrow> session" where
  "start h c spawned onMessage s0 =
     (let s1 = s0\<lparr>messageCallback := onMessage\<rparr> in
      if process s1 \<noteq> None then emit [ConsoleLog AlreadyRunning] s1
      else
        (let s2 = s1\<lparr>outputBuffer := []\<rparr>;
             pythonPath = choose_pythonPath c;
             backendScript = path_join h [extensionPath c, js ''python'', js ''variable_inspector.py''];
             cwd = (if truthy_str (workspaceFolder c) then workspaceFolder c else None);
             s3 = emit [ConsoleLog (StartingBackend pythonPath backendScript)] s2
         in case spawned of
              None \<Rightarrow>
                emit [ConsoleError SpawnFailed,
                      ShowErrorMessage (FailedToStartBackend pythonPath)] s3
            | Some p \<Rightarrow>
                emit [Spawn p pythonPath backendScript cwd (pythonPathEnv h c)]
                  (s3\<lparr>process := Some p\<rparr>)))"

subsection \<open>The handlers registered on the child\<close>

text \<open>The \<open>'error'\<close> handler (lines 79 to 86).\<close>

definition on_error :: "jsstring \<Rightarrow> session \<Rightarrow> session" where
  "on_error message s =
     emit [ShowErrorMessage (FailedToStartPython message)]
       ((emit [ConsoleError (ProcessError message)] s)\<lparr>process := None\<rparr>)"

text \<open>
  The body of the \<open>while\<close> loop of the stdout handler for one trimmed line (lines 98 to
  110). Both \<open>JSON.parse\<close> and the call of the callback are inside the \<open>try\<close>.
\<close>

definition handle_line :: "host \<Rightarrow> jsstring \<Rightarrow> session \<Rightarrow> session" where
  "handle_line h line s =
     (if length line > 0 then
        (case json_parse h line of
           None \<Rightarrow>
             emit [ConsoleError (ParseError (substring line 0 100 @ js ''...'') (int (length line)))] s
         | Some response \<Rightarrow>
             (case messageCallback s of
                None \<Rightarrow> s
              | Some cb \<Rightarrow>
                  if callback_throws h cb response then
                    emit [Invoke cb response,
                          ConsoleError (ParseError (substring line 0 100 @ js ''...'')
                                          (int (length line)))] s
                  else emit [Invoke cb response] s))
      else s)"

text \<open>The \<open>while\<close> loop (lines 94 to 111).\<close>

function drain :: "host \<Rightarrow> session \<Rightarrow> session" where
  "drain h s =
     (let lineEnd = indexOf (outputBuffer s) NL in
      if lineEnd \<noteq> - 1 then
        (let line = trim (substring (outputBuffer s) 0 lineEnd);
             s' = s\<lparr>outputBuffer := substring_from (outputBuffer s) (lineEnd + 1)\<rparr>
         in drain h (handle_line h line s'))
      else s)"
  by pat_completeness auto
termination
proof (relation "measure (\<lambda>(h, s). length (outputBuffer s))")
  show "wf (measure (\<lambda>(h, s). length (outputBuffer s)))"
    by simp
next
  fix h :: host and s :: session and lineEnd line s'
  assume a: "lineEnd = indexOf (outputBuffer s) NL" "lineEnd \<noteq> - 1"
    and l: "line = trim (substring (outputBuffer s) 0 lineEnd)"
    and s': "s' = s\<lparr>outputBuffer := substring_from (outputBuffer s) (lineEnd + 1)\<rparr>"
  have same: "outputBuffer (handle_line h line s') = outputBuffer s'"
    by (simp add: handle_line_def emit_def split: option.splits)
  have shorter: "NL \<in> set xs \<Longrightarrow> length (takeWhile (\<lambda>x. x \<noteq> NL) xs) < length xs"
    for xs :: jsstring
    by (induction xs) auto
  from a have "NL \<in> set (outputBuffer s)"
    by (simp add: indexOf_def split: if_splits)
  then have "length (takeWhile (\<lambda>x. x \<noteq> NL) (outputBuffer s)) < length (outputBuffer s)"
    by (rule shorter)
  with a have "length (substring_from (outputBuffer s) (lineEnd + 1)) < length (outputBuffer s)"
    by (simp add: substring_from_def substring_def indexOf_def Let_def split: if_splits)
  with same s' show "((h, handle_line h line s'), (h, s)) \<in> measure (\<lambda>(h, s). length (outputBuffer s))"
    by simp
qed

declare drain.simps [simp del]

text \<open>The stdout \<open>'data'\<close> handler (lines 88 to 112).\<close>

definition stdout_data :: "host \<Rightarrow> byte list \<Rightarrow> session \<Rightarrow> session" where
  "stdout_data h data s = drain h (s\<lparr>outputBuffer := outputBuffer s @ toString data\<rparr>)"

text \<open>
  The stderr handler (lines 114 to 124) reads and writes no field of the manager; it is
  not part of the model.

  The \<open>'close'\<close> handler (lines 126 to 136).
\<close>

definition on_close :: "int option \<Rightarrow> session \<Rightarrow> session" where
  "on_close code s =
     (let s1 = emit [ConsoleLog (ExitedWithCode code)] s;
          s2 = (if code \<noteq> Some 0 \<and> code \<noteq> None
                then emit [ShowWarningMessage (ExitedUnexpectedly code)] s1
                else s1)
      in s2\<lparr>process := None, outputBuffer := []\<rparr>)"

subsection \<open>\<open>sendCommand\<close> and the commands built on it\<close>

text \<open>
  A command is an object literal: its properties in insertion order. Reading a property
  that is absent gives \<open>undefined\<close>; assigning to a property updates it in place or
  appends it.
\<close>

type_synonym command = "(jsstring \<times> jsval) list"

definition get_property :: "command \<Rightarrow> jsstring \<Rightarrow> jsval" where
  "get_property obj k = (case map_of obj k of None \<Rightarrow> Undefined | Some v \<Rightarrow> v)"

definition set_property :: "command \<Rightarrow> jsstring \<Rightarrow> jsval \<Rightarrow> command" where
  "set_property obj k v =
     (if k \<in> set (map fst obj) then map (\<lambda>(k', v'). if k' = k then (k', v) else (k', v')) obj
      else obj @ [(k, v)])"

text \<open>
  \<open>sendCommand(command)\<close> returns a boolean; nothing escapes the \<open>try\<close>, which covers
  both \<open>JSON.stringify\<close> and the write.
\<close>

definition sendCommand :: "host \<Rightarrow> command \<Rightarrow> session \<Rightarrow> bool \<times> session" where
  "sendCommand h command s =
     (case process s of
        None \<Rightarrow>
          (False, emit [ConsoleError (NotRunningCannotSend (get_property command (js ''command'')))] s)
      | Some p \<Rightarrow>
          if \<not> stdin_present p then
            (False, emit [ConsoleError (NotRunningCannotSend (get_property command (js ''command'')))] s)
          else
            (case json_stringify h (Obj command) of
               None \<Rightarrow>
                 (False, emit [ConsoleError SendError, ShowErrorMessage FailedToCommunicate] s)
             | Some commandStr \<Rightarrow>
                 if stdin_write_throws h (pid p) (commandStr @ [NL]) then
                   (False, emit [ConsoleError SendError, ShowErrorMessage FailedToCommunicate] s)
                 else (True, emit [StdinWrite (pid p) (commandStr @ [NL])] s)))"

definition runFile :: "host \<Rightarrow> config \<Rightarrow> jsval \<Rightarrow> session \<Rightarrow> bool \<times> session" where
  "runFile h c filePath s =
     sendCommand h [(js ''command'', Str (js ''run_file'')),
                    (js ''file'', filePath),
                    (js ''capture_main_locals'', captureMainLocals c)] s"

definition runCode :: "host \<Rightarrow> config \<Rightarrow> jsval \<Rightarrow> session \<Rightarrow> bool \<times> session" where
  "runCode h c code s =
     sendCommand h [(js ''command'', Str (js ''run_code'')),
                    (js ''code'', code),
                    (js ''capture_main_locals'', captureMainLocals c)] s"

definition getVariables :: "host \<Rightarrow> session \<Rightarrow> bool \<times> session" where
  "getVariables h s = sendCommand h [(js ''command'', Str (js ''get_variables''))] s"

text \<open>
  \<open>getDetails(varName, path = null)\<close>: the default applies when the argument is
  omitted or \<open>undefined\<close>.
\<close>

definition getDetails :: "host \<Rightarrow> jsval \<Rightarrow> jsval \<Rightarrow> session \<Rightarrow> bool \<times> session" where
  "getDetails h varName path_arg s =
     (let path = (if path_arg = Undefined then Null else path_arg);
          command = [(js ''command'', Str (js ''get_details'')), (js ''name'', varName)];
          command' = (if truthy path then set_property command (js ''path'') path else command)
      in sendCommand h command' s)"

definition updateVariable :: "host \<Rightarrow> jsval \<Rightarrow> jsval \<Rightarrow> jsval \<Rightarrow> session \<Rightarrow> bool \<times> session" where
  "updateVariable h varName varType newValue s =
     sendCommand h [(js ''command'', Str (js ''update_variable'')),
                    (js ''name'', varName),
                    (js ''type'', varType),
                    (js ''value'', newValue)] s"

definition clearNamespace :: "host \<Rightarrow> session \<Rightarrow> bool \<times> session" where
  "clearNamespace h s = sendCommand h [(js ''command'', Str (js ''clear_namespace''))] s"

definition saveSession :: "host \<Rightarrow> jsval \<Rightarrow> session \<Rightarrow> bool \<times> session" where
  "saveSession h filePath s =
     sendCommand h [(js ''command'', Str (js ''save_session'')), (js ''file'', filePath)] s"

definition loadSession :: "host \<Rightarrow> jsval \<Rightarrow> session \<Rightarrow> bool \<times> session" where
  "loadSession h filePath s =
     sendCommand h [(js ''command'', Str (js ''load_session'')), (js ''file'', filePath)] s"

definition isRunning :: "session \<Rightarrow> bool" where
  "isRunning s = (process s \<noteq> None)"

definition dispose :: "session \<Rightarrow> session" where
  "dispose s =
     (case process s of
        None \<Rightarrow> s
      | Some p \<Rightarrow> (emit [Kill (pid p)] s)\<lparr>process := None\<rparr>)"

section \<open>Runs: method calls and child events in the order the host delivers them\<close>

text \<open>
  The host is single-threaded: a run is a sequence of method calls and of events of the
  children. A handler is a closure over the manager, not over the child it was
  registered on, so an event reaches the same handler whichever child emits it. The
  \<open>'close'\<close> event names the child that emitted it; the run records that in the trace.
\<close>

datatype event =
    CallStart config "child option" "callback option"
  | CallDispose
  | CallSendCommand command
  | StdoutData "byte list"
  | ErrorEvent jsstring
  | CloseEvent nat "int option"

fun step :: "host \<Rightarrow> session \<Rightarrow> event \<Rightarrow> session" where
  "step h s (CallStart c spawned onMessage) = start h c spawned onMessage s"
| "step h s CallDispose = dispose s"
| "step h s (CallSendCommand command) = snd (sendCommand h command s)"
| "step h s (StdoutData data) = stdout_data h data s"
| "step h s (ErrorEvent message) = on_error message s"
| "step h s (CloseEvent p code) = on_close code (emit [ChildClosed p code] s)"

definition run :: "host \<Rightarrow> session \<Rightarrow> event list \<Rightarrow> session" where
  "run h s evs = foldl (step h) s evs"

text \<open>Feeding a sequence of chunks to the stdout handler, one \<open>'data'\<close> event each.\<close>

definition feed :: "host \<Rightarrow> byte list list \<Rightarrow> session \<Rightarrow> session" where
  "feed h chunks s = foldl (\<lambda>s' data. stdout_data h data s') s chunks"

text \<open>
  The worker processes of a session that exist after a trace: the children \<open>spawn\<close>
  returned, without those \<open>kill\<close> was called on and those that have closed.
\<close>

fun spawned_child :: "effect \<Rightarrow> child list" where
  "spawned_child (Spawn p exe script cwd pp) = [p]"
| "spawned_child e = []"

definition existing_workers :: "effect list \<Rightarrow> child list" where
  "existing_workers tr =
     filter (\<lambda>p. Kill (pid p) \<notin> set tr \<and> list_all (\<lambda>e. case e of ChildClosed q code \<Rightarrow> q \<noteq> pid p | _ \<Rightarrow> True) tr)
       (concat (map spawned_child tr))"

text \<open>The calls of the message callback in a trace, and what the user is shown.\<close>

fun invocation :: "effect \<Rightarrow> (callback \<times> jsval) list" where
  "invocation (Invoke cb response) = [(cb, response)]"
| "invocation e = []"

definition invocations :: "effect list \<Rightarrow> (callback \<times> jsval) list" where
  "invocations tr = concat (map invocation tr)"

fun user_visible :: "effect \<Rightarrow> bool" where
  "user_visible (ShowErrorMessage m) = True"
| "user_visible (ShowWarningMessage m) = True"
| "user_visible e = False"

fun stdin_write :: "effect \<Rightarrow> bool" where
  "stdin_write (StdinWrite p text) = True"
| "stdin_write e = False"

section \<open>Lines of a text\<close>

text \<open>
  The complete lines of a text are the pieces before each line terminator, in order; the
  fragment is what follows the last terminator. Both are read off in one pass from the
  left, with the line collected so far.
\<close>

fun lines_from :: "jsstring \<Rightarrow> jsstring \<Rightarrow> jsstring list" where
  "lines_from cur [] = []"
| "lines_from cur (c # cs) = (if c = NL then cur # lines_from [] cs else lines_from (cur @ [c]) cs)"

fun rest_from :: "jsstring \<Rightarrow> jsstring \<Rightarrow> jsstring" where
  "rest_from cur [] = cur"
| "rest_from cur (c # cs) = (if c = NL then rest_from [] cs else rest_from (cur @ [c]) cs)"

definition complete_lines :: "jsstring \<Rightarrow> jsstring list" where
  "complete_lines t = lines_from [] t"

definition fragment :: "jsstring \<Rightarrow> jsstring" where
  "fragment t = rest_from [] t"

text \<open>A list of lines, each followed by the terminator.\<close>

definition terminated :: "jsstring list \<Rightarrow> jsstring" where
  "terminated ls = concat (map (\<lambda>l. l @ [NL]) ls)"

text \<open>
  What \<open>handle_line\<close> appends to the trace for one trimmed line, given the callback
  bound at that moment; and what the stdout handler appends for a whole text: the
  effects of its complete lines, trimmed, in order.
\<close>

definition line_effects :: "host \<Rightarrow> callback option \<Rightarrow> jsstring \<Rightarrow> effect list" where
  "line_effects h cbo line =
     (if line = [] then []
      else (case json_parse h line of
              None \<Rightarrow> [ConsoleError (ParseError (substring line 0 100 @ js ''...'') (int (length line)))]
            | Some response \<Rightarrow>
                (case cbo of
                   None \<Rightarrow> []
                 | Some cb \<Rightarrow>
                     if callback_throws h cb response then
                       [Invoke cb response,
                        ConsoleError (ParseError (substring line 0 100 @ js ''...'') (int (length line)))]
                     else [Invoke cb response])))"

definition yielded :: "host \<Rightarrow> callback option \<Rightarrow> jsstring \<Rightarrow> effect list" where
  "yielded h cbo t = concat (map (\<lambda>l. line_effects h cbo (trim l)) (complete_lines t))"

section \<open>The search path as the specification words it\<close>

text \<open>
  Each configured extra path, resolved (an absolute entry unchanged; a relative entry
  joined against the workspace root when there is one, a non-empty string; otherwise
  unchanged), then the extension-owned path, then the inherited search path if it is
  non-empty; the entries joined with the separator between them.
\<close>

definition spec_resolve :: "host \<Rightarrow> jsstring option \<Rightarrow> jsstring \<Rightarrow> jsstring" where
  "spec_resolve h root p =
     (if path_isAbsolute h p then p
      else (case root of
              None \<Rightarrow> p
            | Some w \<Rightarrow> if w = [] then p else path_join h [w, p]))"

definition spec_extra :: "config \<Rightarrow> jsstring list" where
  "spec_extra c = (case extraPaths c of None \<Rightarrow> [] | Some ps \<Rightarrow> ps)"

definition spec_inherited :: "config \<Rightarrow> jsstring list" where
  "spec_inherited c = (case env_PYTHONPATH c of None \<Rightarrow> [] | Some e \<Rightarrow> if e = [] then [] else [e])"

fun spec_joined :: "jsstring \<Rightarrow> jsstring list \<Rightarrow> jsstring" where
  "spec_joined sep [] = []"
| "spec_joined sep (x # xs) = x @ concat (map (\<lambda>y. sep @ y) xs)"

definition spec_search_path :: "host \<Rightarrow> config \<Rightarrow> jsstring" where
  "spec_search_path h c =
     spec_joined (path_delimiter h)
       (map (spec_resolve h (workspaceFolder c)) (spec_extra c) @
        [extensionPythonPath h c] @ spec_inherited c)"

text \<open>
  The directories the second version of \<open>start\<close> pushes: the scan of the workspace,
  started on an empty array.
\<close>

definition scanned_subdirs :: "host \<Rightarrow> config \<Rightarrow> dirent list option \<Rightarrow> jsstring list" where
  "scanned_subdirs h c root_listing =
     (case workspaceFolder c of
        None \<Rightarrow> []
      | Some w \<Rightarrow> if w \<noteq> [] then fst (addSubdirs h w root_listing 0 []) else [])"

section \<open>Sample inputs\<close>

text \<open>
  Concrete inputs the theorems are instantiated at: three children, a session with a
  running child and a buffered fragment, and a host with POSIX-like path functions
  (absolute means a leading slash, joining puts a slash between the parts, the
  delimiter is a colon), a serializer for objects of strings, and a parser that knows
  the two lines \<open>{"a":1}\<close> and \<open>{"b":2}\<close>.
\<close>

definition child1 :: child where
  "child1 = \<lparr>pid = 1, stdin_present = True\<rparr>"

definition child2 :: child where
  "child2 = \<lparr>pid = 2, stdin_present = True\<rparr>"

definition child3 :: child where
  "child3 = \<lparr>pid = 3, stdin_present = True\<rparr>"

definition running_session :: session where
  "running_session =
     \<lparr>process = Some child1, messageCallback = Some 7, outputBuffer = js ''{'', trace = []\<rparr>"

fun sample_fields :: "(jsstring \<times> jsval) list \<Rightarrow> jsstring list option" where
  "sample_fields [] = Some []"
| "sample_fields ((k, Str v) # kvs) =
     (case sample_fields kvs of
        None \<Rightarrow> None
      | Some fs \<Rightarrow> Some (([0x22] @ k @ [0x22, 0x3A, 0x22] @ v @ [0x22]) # fs))"
| "sample_fields ((k, v) # kvs) = None"

definition sample_stringify :: "jsval \<Rightarrow> jsstring option" where
  "sample_stringify v =
     (case v of
        Obj kvs \<Rightarrow>
          (case sample_fields kvs of
             None \<Rightarrow> None
           | Some fs \<Rightarrow> Some (js ''{'' @ array_join fs (js '','') @ js ''}''))
      | _ \<Rightarrow> None)"

definition line_a :: jsstring where
  "line_a = [0x7B, 0x22, 0x61, 0x22, 0x3A, 0x31, 0x7D]"

definition line_b :: jsstring where
  "line_b = [0x7B, 0x22, 0x62, 0x22, 0x3A, 0x32, 0x7D]"

definition sample_parse :: "jsstring \<Rightarrow> jsval option" where
  "sample_parse line =
     (if line = line_a then Some (Obj [(js ''a'', Num 1)])
      else if line = line_b then Some (Obj [(js ''b'', Num 2)])
      else None)"

definition sample_host :: host where
  "sample_host =
     \<lparr>path_isAbsolute = (\<lambda>p. startsWith p (js ''/'')),
      path_join = (\<lambda>parts. array_join parts (js ''/'')),
      path_delimiter = js '':'',
      json_parse = sample_parse,
      json_stringify = sample_stringify,
      callback_throws = (\<lambda>cb response. False),
      stdin_write_throws = (\<lambda>p text. False)\<rparr>"

definition sample_config :: config where
  "sample_config =
     \<lparr>defaultInterpreterPath = None,
      variableExplorer_pythonPath = None,
      platform_win32 = False,
      extensionPath = js ''/ext'',
      workspaceFolder = Some (js ''/ws''),
      extraPaths = Some [js ''lib'', js ''/abs/x''],
      env_PYTHONPATH = Some (js ''/old''),
      captureMainLocals = Boolean False\<rparr>"

text \<open>
  The bytes of the stream \<open>{"a":1}\<close>, \<open>NOT-JSON\<close>, \<open>{"b":2}\<close>, each line followed by a
  newline.
\<close>

definition stream_bytes :: "byte list" where
  "stream_bytes =
     [0x7B, 0x22, 0x61, 0x22, 0x3A, 0x31, 0x7D, 0x0A,
      0x4E, 0x4F, 0x54, 0x2D, 0x4A, 0x53, 0x4F, 0x4E, 0x0A,
      0x7B, 0x22, 0x62, 0x22, 0x3A, 0x32, 0x7D, 0x0A]"

section \<open>Facts about the primitives\<close>

lemma emit_nothing: "emit [] s = s"
  by (simp add: emit_def)

lemma handle_line_effects: "handle_line h line s = emit (line_effects h (messageCallback s) line) s"
  by (simp add: handle_line_def line_effects_def emit_nothing split: option.splits)

lemma indexOf_absent: "(indexOf s c = - 1) = (c \<notin> set s)"
  by (simp add: indexOf_def)

lemma takeWhile_first: "c \<notin> set pre \<Longrightarrow> takeWhile (\<lambda>x. x \<noteq> c) (pre @ c # post) = pre"
  by (induction pre) auto

lemma indexOf_first: "c \<notin> set pre \<Longrightarrow> indexOf (pre @ c # post) c = int (length pre)"
  by (simp add: indexOf_def takeWhile_first)

lemma substring_prefix: "substring (pre @ c # post) 0 (int (length pre)) = pre"
  by (simp add: substring_def Let_def)

lemma substring_from_suffix: "substring_from (pre @ c # post) (int (length pre) + 1) = post"
  by (simp add: substring_from_def substring_def Let_def nat_add_distrib)

subsection \<open>Lines and fragment\<close>

lemma lines_from_no_NL: "NL \<notin> set t \<Longrightarrow> lines_from cur t = []"
  by (induction t arbitrary: cur) auto

lemma rest_from_no_NL: "NL \<notin> set t \<Longrightarrow> rest_from cur t = cur @ t"
  by (induction t arbitrary: cur) auto

lemma lines_from_append:
  "lines_from cur (a @ b) = lines_from cur a @ lines_from (rest_from cur a) b"
  by (induction a arbitrary: cur) auto

lemma rest_from_append: "rest_from cur (a @ b) = rest_from (rest_from cur a) b"
  by (induction a arbitrary: cur) auto

lemma rest_from_clean: "NL \<notin> set cur \<Longrightarrow> NL \<notin> set (rest_from cur t)"
  by (induction t arbitrary: cur) auto

lemma fragment_clean: "NL \<notin> set (fragment t)"
  by (simp add: fragment_def rest_from_clean)

lemma lines_from_cur: "NL \<notin> set cur \<Longrightarrow> lines_from cur t = lines_from [] (cur @ t)"
  by (simp add: lines_from_append lines_from_no_NL rest_from_no_NL)

lemma rest_from_cur: "NL \<notin> set cur \<Longrightarrow> rest_from cur t = rest_from [] (cur @ t)"
  by (simp add: rest_from_append rest_from_no_NL)

lemma complete_lines_first:
  "NL \<notin> set pre \<Longrightarrow> complete_lines (pre @ NL # post) = pre # complete_lines post"
  by (simp add: complete_lines_def lines_from_append lines_from_no_NL rest_from_no_NL)

lemma fragment_first: "fragment (pre @ NL # post) = fragment post"
  by (simp add: fragment_def rest_from_append)

lemma complete_lines_fragment_append:
  "complete_lines (a @ b) = complete_lines a @ complete_lines (fragment a @ b)"
  using lines_from_cur [of "rest_from [] a" b]
  by (simp add: complete_lines_def fragment_def lines_from_append rest_from_clean)

lemma fragment_fragment_append: "fragment (fragment a @ b) = fragment (a @ b)"
  using rest_from_cur [of "rest_from [] a" b]
  by (simp add: fragment_def rest_from_append rest_from_clean)

text \<open>The fragment is the text after the last line terminator.\<close>

lemma fragment_last: "fragment t = rev (takeWhile (\<lambda>x. x \<noteq> NL) (rev t))"
proof (cases "NL \<in> set t")
  case False
  then have "\<forall>x\<in>set (rev t). x \<noteq> NL"
    by auto
  then have eq: "takeWhile (\<lambda>x. x \<noteq> NL) (rev t) = rev t"
    by (rule takeWhile_eq_all_conv [THEN iffD2])
  show ?thesis
    by (simp add: eq fragment_def rest_from_no_NL False)
next
  case True
  then obtain ys zs where t: "t = ys @ NL # zs" and zs: "NL \<notin> set zs"
    by (auto dest: split_list_last)
  from zs have "takeWhile (\<lambda>x. x \<noteq> NL) (rev zs @ NL # rev ys) = rev zs"
    by (induction zs rule: rev_induct) auto
  with t zs show ?thesis
    by (simp add: fragment_first) (simp add: fragment_def rest_from_no_NL)
qed

lemma complete_lines_terminated:
  "list_all (\<lambda>l. NL \<notin> set l) ls \<Longrightarrow> complete_lines (terminated ls @ t) = ls @ complete_lines t"
  by (induction ls) (simp_all add: terminated_def complete_lines_first)

lemma fragment_terminated: "fragment (terminated ls @ t) = fragment t"
  by (induction ls) (simp_all add: terminated_def fragment_first)

lemma yielded_append:
  "yielded h cbo (a @ b) = yielded h cbo a @ yielded h cbo (fragment a @ b)"
  by (simp add: yielded_def complete_lines_fragment_append [of a b])

lemma yielded_no_NL: "NL \<notin> set r \<Longrightarrow> yielded h cbo (t @ r) = yielded h cbo t"
  using fragment_clean [of t]
  by (simp add: yielded_append [of h cbo t r])
     (simp add: yielded_def complete_lines_def lines_from_no_NL)

subsection \<open>The loop of the stdout handler\<close>

text \<open>
  The loop handles the complete lines of the buffer, trimmed, in order, and leaves the
  fragment. Computation induction on \<open>drain\<close>.
\<close>

lemma drain_eq:
  "drain h s =
     (emit (yielded h (messageCallback s) (outputBuffer s)) s)\<lparr>outputBuffer := fragment (outputBuffer s)\<rparr>"
proof (induction h s rule: drain.induct)
  case (1 h s)
  show ?case
  proof (cases "NL \<in> set (outputBuffer s)")
    case False
    then have "drain h s = s"
      by (subst drain.simps) (simp add: indexOf_absent)
    moreover from False have "yielded h (messageCallback s) (outputBuffer s) = []"
      by (simp add: yielded_def complete_lines_def lines_from_no_NL)
    moreover from False have "fragment (outputBuffer s) = outputBuffer s"
      by (simp add: fragment_def rest_from_no_NL)
    ultimately show ?thesis
      by (simp add: emit_nothing)
  next
    case True
    then obtain pre post where buf: "outputBuffer s = pre @ NL # post" and pre: "NL \<notin> set pre"
      by (auto dest: split_list_first)
    define s' where "s' = s\<lparr>outputBuffer := post\<rparr>"
    from buf pre have idx: "indexOf (outputBuffer s) NL = int (length pre)"
      by (simp add: indexOf_first)
    have step: "drain h s = drain h (handle_line h (trim pre) s')"
      by (subst drain.simps) (simp add: idx s'_def, simp add: buf substring_prefix substring_from_suffix)
    have "drain h (handle_line h (trim pre) s') =
       (emit (yielded h (messageCallback (handle_line h (trim pre) s'))
                 (outputBuffer (handle_line h (trim pre) s')))
          (handle_line h (trim pre) s'))
       \<lparr>outputBuffer := fragment (outputBuffer (handle_line h (trim pre) s'))\<rparr>"
      using "1.IH" [of "indexOf (outputBuffer s) NL" "trim pre" s'] idx buf
      by (simp add: s'_def substring_prefix substring_from_suffix)
    with step buf pre show ?thesis
      by (simp add: handle_line_effects emit_def s'_def yielded_def complete_lines_first fragment_first)
  qed
qed

lemma stdout_data_eq:
  "stdout_data h data s =
     (emit (yielded h (messageCallback s) (outputBuffer s @ toString data)) s)
       \<lparr>outputBuffer := fragment (outputBuffer s @ toString data)\<rparr>"
  by (simp add: stdout_data_def drain_eq emit_def)

text \<open>
  Feeding chunks one by one, from a buffer that holds no terminator, is feeding the
  concatenation of their decoded texts. Induction on the chunks, the session
  generalised.
\<close>

lemma feed_eq:
  "NL \<notin> set (outputBuffer s) \<Longrightarrow>
   feed h chunks s =
     (emit (yielded h (messageCallback s) (outputBuffer s @ concat (map toString chunks))) s)
       \<lparr>outputBuffer := fragment (outputBuffer s @ concat (map toString chunks))\<rparr>"
proof (induction chunks arbitrary: s)
  case Nil
  then show ?case
    by (simp add: feed_def yielded_def complete_lines_def fragment_def lines_from_no_NL
          rest_from_no_NL emit_nothing)
next
  case (Cons d ds)
  have clean: "NL \<notin> set (outputBuffer (stdout_data h d s))"
    by (simp add: stdout_data_eq fragment_clean)
  have "feed h (d # ds) s = feed h ds (stdout_data h d s)"
    by (simp add: feed_def)
  also have "\<dots> =
     (emit (yielded h (messageCallback s)
              (fragment (outputBuffer s @ toString d) @ concat (map toString ds)))
        (stdout_data h d s))
       \<lparr>outputBuffer :=
          fragment (fragment (outputBuffer s @ toString d) @ concat (map toString ds))\<rparr>"
    by (simp add: Cons.IH [OF clean]) (simp add: stdout_data_eq emit_def)
  finally have unfolded: "feed h (d # ds) s =
     (emit (yielded h (messageCallback s)
              (fragment (outputBuffer s @ toString d) @ concat (map toString ds)))
        (stdout_data h d s))
       \<lparr>outputBuffer :=
          fragment (fragment (outputBuffer s @ toString d) @ concat (map toString ds))\<rparr>" .
  have ya: "yielded h (messageCallback s) (outputBuffer s @ toString d @ concat (map toString ds)) =
      yielded h (messageCallback s) (outputBuffer s @ toString d) @
      yielded h (messageCallback s) (fragment (outputBuffer s @ toString d) @ concat (map toString ds))"
    using yielded_append [of h "messageCallback s" "outputBuffer s @ toString d" "concat (map toString ds)"]
    by simp
  have fa: "fragment (fragment (outputBuffer s @ toString d) @ concat (map toString ds)) =
      fragment (outputBuffer s @ toString d @ concat (map toString ds))"
    using fragment_fragment_append [of "outputBuffer s @ toString d" "concat (map toString ds)"]
    by simp
  show ?case
    by (simp add: unfolded stdout_data_eq emit_def ya fa)
qed

subsection \<open>Decoding ASCII\<close>

lemma utf8_decode_ascii:
  "list_all (\<lambda>b. b \<le> 0x7F) bs \<Longrightarrow> utf8_decode utf8_init (bs @ cs) = bs @ utf8_decode utf8_init cs"
  by (induction bs) (simp_all add: utf8_lead_def utf8_init_def)

lemma toString_ascii_append:
  "list_all (\<lambda>b. b \<le> 0x7F) bs \<Longrightarrow> toString (bs @ cs) = map ucast bs @ toString cs"
proof -
  assume a: "list_all (\<lambda>b. b \<le> 0x7F) bs"
  then have "list_all (\<lambda>b. b \<le> 0x7F) (map unat bs)"
    by (induction bs) (simp_all add: word_le_nat_alt)
  then have "utf8_decode utf8_init (map unat bs @ map unat cs) = map unat bs @ utf8_decode utf8_init (map unat cs)"
    by (rule utf8_decode_ascii)
  moreover have small: "unat x < 0x10000" for x :: byte
    using unsigned_less [of x, where ?'a = nat] by simp
  have "concat (map utf16_units (map unat bs)) = map ucast bs"
    by (induction bs) (simp_all add: utf16_units_def small)
  ultimately show ?thesis
    by (simp add: toString_def)
qed

lemma toString_ascii: "list_all (\<lambda>b. b \<le> 0x7F) bs \<Longrightarrow> toString bs = map ucast bs"
  using toString_ascii_append [of bs "[]"]
  by (simp add: toString_def utf8_init_def)

lemma toString_concat_ascii:
  "list_all (\<lambda>b. b \<le> 0x7F) (concat chunks) \<Longrightarrow> concat (map toString chunks) = toString (concat chunks)"
  by (induction chunks) (simp_all add: toString_ascii_append toString_ascii)

subsection \<open>Projections of the trace\<close>

lemma invocations_append: "invocations (xs @ ys) = invocations xs @ invocations ys"
  by (simp add: invocations_def)

lemma invocations_line:
  "invocations (line_effects h (Some cb) line) =
     (if line = [] then [] else case json_parse h line of None \<Rightarrow> [] | Some r \<Rightarrow> [(cb, r)])"
  by (simp add: invocations_def line_effects_def split: option.splits)

lemma invocations_yielded:
  "invocations (yielded h (Some cb) t) =
     concat (map (\<lambda>l. if trim l = [] then []
                       else (case json_parse h (trim l) of None \<Rightarrow> [] | Some r \<Rightarrow> [(cb, r)]))
               (complete_lines t))"
proof -
  have "invocations (concat (map (\<lambda>l. line_effects h (Some cb) (trim l)) ls)) =
      concat (map (\<lambda>l. if trim l = [] then []
                        else (case json_parse h (trim l) of None \<Rightarrow> [] | Some r \<Rightarrow> [(cb, r)])) ls)"
    for ls
    by (induction ls) (simp_all add: invocations_append invocations_line, simp add: invocations_def)
  then show ?thesis
    by (simp add: yielded_def)
qed

lemma user_visible_line: "filter user_visible (line_effects h cbo line) = []"
  by (simp add: line_effects_def split: option.splits)

lemma user_visible_yielded: "filter user_visible (yielded h cbo t) = []"
  by (simp add: yielded_def filter_concat comp_def user_visible_line)

subsection \<open>The sample stream\<close>

lemma stream_ascii: "list_all (\<lambda>b. b \<le> 0x7F) stream_bytes"
  by (simp add: stream_bytes_def)

lemma stream_text: "toString stream_bytes = terminated [line_a, js ''NOT-JSON'', line_b]"
  by (simp add: stream_bytes_def toString_def utf8_lead_def utf8_init_def utf16_units_def
        terminated_def line_a_def line_b_def js_def NL_def)

lemma sample_lines_clean: "list_all (\<lambda>l. NL \<notin> set l) [line_a, js ''NOT-JSON'', line_b]"
  by (simp add: line_a_def line_b_def js_def NL_def)

lemma trim_samples:
  "trim line_a = line_a" "trim (js ''NOT-JSON'') = js ''NOT-JSON''" "trim line_b = line_b"
  by (simp_all add: trim_def line_a_def line_b_def js_def is_js_whitespace_def)

lemma samples_nonempty: "line_a \<noteq> []" "js ''NOT-JSON'' \<noteq> []" "line_b \<noteq> []"
  by (simp_all add: line_a_def line_b_def js_def)

section \<open>Stream framing\<close>

text \<open>
  What the stdout handler does for chunks whose decoded texts make up a sequence of
  terminated lines: from an empty buffer it handles exactly those lines, trimmed, in
  order (a line that is empty after trimming has no effect), and the buffer is empty
  again. For bytes that are all ASCII the decoded text of the chunks is the decoded text
  of their concatenation, wherever the chunk boundaries fall.
\<close>

lemma feed_yields_lines:
  assumes "list_all (\<lambda>l. NL \<notin> set l) ls"
    and "concat (map toString chunks) = terminated ls"
    and "outputBuffer s = []"
  shows "feed h chunks s =
           emit (concat (map (\<lambda>l. line_effects h (messageCallback s) (trim l)) ls)) s"
proof -
  have "complete_lines (terminated ls) = ls"
    using complete_lines_terminated [OF assms(1), of "[]"] by (simp add: complete_lines_def)
  moreover have "fragment (terminated ls) = []"
    using fragment_terminated [of ls "[]"] by (simp add: fragment_def)
  ultimately have "feed h chunks s =
      (emit (concat (map (\<lambda>l. line_effects h (messageCallback s) (trim l)) ls)) s)
        \<lparr>outputBuffer := []\<rparr>"
    using feed_eq [of s h chunks] assms(2,3) by (simp add: yielded_def)
  with assms(3) show ?thesis
    by (cases s) (simp add: emit_def)
qed

lemma feed_ascii_chunking:
  assumes "list_all (\<lambda>b. b \<le> 0x7F) (concat chunks)"
    and "NL \<notin> set (outputBuffer s)"
  shows "feed h chunks s = feed h [concat chunks] s"
  using assms feed_eq [of s h chunks] feed_eq [of s h "[concat chunks]"]
  by (simp add: toString_concat_ascii)

text \<open>
  C1 says that the lines yielded do not depend on where the chunk boundaries fall, for
  every sequence of byte chunks, one-byte chunks included. Each chunk is decoded on its
  own, so a boundary inside a multi-byte UTF-8 character changes the text. The line is
  the JSON string of the letter e with acute (bytes \<open>22 C3 A9 22 0A\<close>). Delivered in one
  chunk, the handler passes the three code units \<open>22 E9 22\<close> to \<open>handle_line\<close>;
  delivered as \<open>22 C3\<close> and \<open>A9 22 0A\<close>, it passes \<open>22 FFFD FFFD 22\<close>: decoding does not
  commute with concatenation here.
\<close>

theorem split_multibyte_character_corrupted:
  "stdout_data h [0xA9, 0x22, 0x0A] (stdout_data h [0x22, 0xC3] (s\<lparr>outputBuffer := []\<rparr>)) =
     handle_line h [0x22, 0xFFFD, 0xFFFD, 0x22] (s\<lparr>outputBuffer := []\<rparr>) \<and>
   stdout_data h [0x22, 0xC3, 0xA9, 0x22, 0x0A] (s\<lparr>outputBuffer := []\<rparr>) =
     handle_line h [0x22, 0xE9, 0x22] (s\<lparr>outputBuffer := []\<rparr>) \<and>
   toString ([0x22, 0xC3] @ [0xA9, 0x22, 0x0A]) \<noteq> toString [0x22, 0xC3] @ toString [0xA9, 0x22, 0x0A]"
proof -
  have first: "toString [0x22, 0xC3] = [0x22, 0xFFFD]"
    by (simp add: toString_def utf8_lead_def utf8_init_def utf16_units_def)
  have second: "toString [0xA9, 0x22, 0x0A] = [0xFFFD, 0x22] @ [NL]"
    by (simp add: toString_def utf8_lead_def utf8_init_def utf16_units_def NL_def)
  have whole: "toString [0x22, 0xC3, 0xA9, 0x22, 0x0A] = [0x22, 0xE9, 0x22] @ [NL]"
    by (simp add: toString_def utf8_lead_def utf8_init_def utf16_units_def NL_def)
  have t1: "trim [0x22, 0xFFFD, 0xFFFD, 0x22] = [0x22, 0xFFFD, 0xFFFD, 0x22]"
    by (simp add: trim_def is_js_whitespace_def)
  have t2: "trim [0x22, 0xE9, 0x22] = [0x22, 0xE9, 0x22]"
    by (simp add: trim_def is_js_whitespace_def)
  have l1: "complete_lines ([0x22, 0xFFFD] @ [0xFFFD, 0x22] @ [NL]) = [[0x22, 0xFFFD, 0xFFFD, 0x22]]"
    using complete_lines_first [of "[0x22, 0xFFFD, 0xFFFD, 0x22]" "[]"]
    by (simp add: NL_def complete_lines_def)
  have l2: "complete_lines ([0x22, 0xE9, 0x22] @ [NL]) = [[0x22, 0xE9, 0x22]]"
    using complete_lines_first [of "[0x22, 0xE9, 0x22]" "[]"]
    by (simp add: NL_def complete_lines_def)
  have f1: "fragment ([0x22, 0xFFFD] @ [0xFFFD, 0x22] @ [NL]) = []"
    using fragment_first [of "[0x22, 0xFFFD, 0xFFFD, 0x22]" "[]"]
    by (simp add: fragment_def)
  have f2: "fragment ([0x22, 0xE9, 0x22] @ [NL]) = []"
    using fragment_first [of "[0x22, 0xE9, 0x22]" "[]"]
    by (simp add: fragment_def)
  have split: "feed h [[0x22, 0xC3], [0xA9, 0x22, 0x0A]] (s\<lparr>outputBuffer := []\<rparr>) =
      handle_line h [0x22, 0xFFFD, 0xFFFD, 0x22] (s\<lparr>outputBuffer := []\<rparr>)"
    using feed_eq [of "s\<lparr>outputBuffer := []\<rparr>" h "[[0x22, 0xC3], [0xA9, 0x22, 0x0A]]"] l1 f1
    by (simp add: first second yielded_def t1 handle_line_effects emit_def)
  have joined: "feed h [[0x22, 0xC3, 0xA9, 0x22, 0x0A]] (s\<lparr>outputBuffer := []\<rparr>) =
      handle_line h [0x22, 0xE9, 0x22] (s\<lparr>outputBuffer := []\<rparr>)"
    using feed_eq [of "s\<lparr>outputBuffer := []\<rparr>" h "[[0x22, 0xC3, 0xA9, 0x22, 0x0A]]"] l2 f2
    by (simp add: whole yielded_def t2 handle_line_effects emit_def)
  have differ: "toString ([0x22, 0xC3] @ [0xA9, 0x22, 0x0A]) \<noteq> toString [0x22, 0xC3] @ toString [0xA9, 0x22, 0x0A]"
    using whole by (simp add: first second)
  from split joined differ show ?thesis
    by (simp add: feed_def)
qed

text \<open>
  What holds of the buffer, on the decoded text of each chunk: after every \<open>'data'\<close>
  event the buffer is the text after the last line terminator of what was buffered plus
  the decoded chunk, and holds no terminator; the effects of the event are those of the
  complete lines only, so text that no terminator follows is never handled as a line,
  and a chunk without a terminator only extends the buffer. The same holds over a
  sequence of chunks. The buffer is emptied by the \<open>'close'\<close> handler and by a \<open>start\<close>
  that finds no process; neither calls the callback, so the fragment is dropped, not
  flushed.
\<close>

lemma unterminated_fragment_stays_buffered:
  "outputBuffer (stdout_data h data s) =
     rev (takeWhile (\<lambda>x. x \<noteq> NL) (rev (outputBuffer s @ toString data))) \<and>
   NL \<notin> set (outputBuffer (stdout_data h data s)) \<and>
   trace (stdout_data h data s) =
     trace s @ yielded h (messageCallback s) (outputBuffer s @ toString data) \<and>
   (\<forall>t r. NL \<notin> set r \<longrightarrow> yielded h (messageCallback s) (t @ r) = yielded h (messageCallback s) t) \<and>
   (NL \<notin> set (outputBuffer s @ toString data) \<longrightarrow>
      stdout_data h data s = s\<lparr>outputBuffer := outputBuffer s @ toString data\<rparr>) \<and>
   (NL \<notin> set (outputBuffer s) \<longrightarrow>
      outputBuffer (feed h chunks s) =
        rev (takeWhile (\<lambda>x. x \<noteq> NL) (rev (outputBuffer s @ concat (map toString chunks)))) \<and>
      trace (feed h chunks s) =
        trace s @ yielded h (messageCallback s) (outputBuffer s @ concat (map toString chunks))) \<and>
   outputBuffer (on_close code s) = [] \<and>
   invocations (trace (on_close code s)) = invocations (trace s) \<and>
   (process s = None \<longrightarrow>
      outputBuffer (start h c spawned onMessage s) = [] \<and>
      invocations (trace (start h c spawned onMessage s)) = invocations (trace s))"
proof -
  have a: "outputBuffer (stdout_data h data s) =
      rev (takeWhile (\<lambda>x. x \<noteq> NL) (rev (outputBuffer s @ toString data)))"
    by (simp add: stdout_data_eq fragment_last)
  have b: "NL \<notin> set (outputBuffer (stdout_data h data s))"
    by (simp add: stdout_data_eq fragment_clean)
  have c: "trace (stdout_data h data s) =
      trace s @ yielded h (messageCallback s) (outputBuffer s @ toString data)"
    by (simp add: stdout_data_eq emit_def)
  have d: "\<forall>t r. NL \<notin> set r \<longrightarrow> yielded h (messageCallback s) (t @ r) = yielded h (messageCallback s) t"
    by (simp add: yielded_no_NL)
  have e: "NL \<notin> set (outputBuffer s @ toString data) \<longrightarrow>
      stdout_data h data s = s\<lparr>outputBuffer := outputBuffer s @ toString data\<rparr>"
  proof
    assume clean: "NL \<notin> set (outputBuffer s @ toString data)"
    then have "yielded h (messageCallback s) (outputBuffer s @ toString data) = []"
      by (simp add: yielded_def complete_lines_def lines_from_no_NL)
    moreover from clean have "fragment (outputBuffer s @ toString data) = outputBuffer s @ toString data"
      by (simp add: fragment_def rest_from_no_NL)
    ultimately show "stdout_data h data s = s\<lparr>outputBuffer := outputBuffer s @ toString data\<rparr>"
      by (simp add: stdout_data_eq emit_nothing)
  qed
  have f: "NL \<notin> set (outputBuffer s) \<longrightarrow>
      outputBuffer (feed h chunks s) =
        rev (takeWhile (\<lambda>x. x \<noteq> NL) (rev (outputBuffer s @ concat (map toString chunks)))) \<and>
      trace (feed h chunks s) =
        trace s @ yielded h (messageCallback s) (outputBuffer s @ concat (map toString chunks))"
    by (simp add: feed_eq fragment_last emit_def)
  have g: "outputBuffer (on_close code s) = [] \<and>
      invocations (trace (on_close code s)) = invocations (trace s)"
    by (simp add: on_close_def emit_def Let_def invocations_def)
  have i: "process s = None \<longrightarrow>
      outputBuffer (start h c spawned onMessage s) = [] \<and>
      invocations (trace (start h c spawned onMessage s)) = invocations (trace s)"
    by (simp add: start_def emit_def Let_def invocations_def split: option.splits)
  from a b c d e f g i show ?thesis
    by blast
qed

lemma unterminated_fragment_stays_buffered_example:
  "stdout_data sample_host [0x7B, 0x22, 0x61] (new_session\<lparr>messageCallback := Some 7\<rparr>) =
     new_session\<lparr>messageCallback := Some 7, outputBuffer := [0x7B, 0x22, 0x61]\<rparr> \<and>
   outputBuffer (feed sample_host [[0x7B, 0x22, 0x61, 0x22, 0x3A, 0x31, 0x7D, 0x0A, 0x7B], [0x22]]
       (new_session\<lparr>messageCallback := Some 7\<rparr>)) = [0x7B, 0x22] \<and>
   trace (feed sample_host [[0x7B, 0x22, 0x61, 0x22, 0x3A, 0x31, 0x7D, 0x0A, 0x7B], [0x22]]
       (new_session\<lparr>messageCallback := Some 7\<rparr>)) = [Invoke 7 (Obj [(js ''a'', Num 1)])] \<and>
   outputBuffer (start sample_host sample_config (Some child1) (Some 7)
       (new_session\<lparr>outputBuffer := [0x7B]\<rparr>)) = [] \<and>
   yielded sample_host (Some 7) (line_a @ [NL] @ [0x7B]) = yielded sample_host (Some 7) (line_a @ [NL])"
  using unterminated_fragment_stays_buffered [of sample_host "[0x7B, 0x22, 0x61]"
      "new_session\<lparr>messageCallback := Some 7\<rparr>"]
    unterminated_fragment_stays_buffered [of sample_host _ "new_session\<lparr>messageCallback := Some 7\<rparr>"
      "[[0x7B, 0x22, 0x61, 0x22, 0x3A, 0x31, 0x7D, 0x0A, 0x7B], [0x22]]"]
    unterminated_fragment_stays_buffered [of sample_host _ "new_session\<lparr>outputBuffer := [0x7B]\<rparr>"
      _ _ sample_config "Some child1" "Some 7"]
    unterminated_fragment_stays_buffered [of sample_host _ "new_session\<lparr>messageCallback := Some 7\<rparr>"]
  by (simp add: new_session_def toString_def utf8_lead_def utf8_init_def utf16_units_def NL_def
        yielded_def complete_lines_def line_effects_def trim_def is_js_whitespace_def
        sample_host_def sample_parse_def line_a_def line_b_def js_def)

text \<open>
  C2 says that after each feed the buffer holds exactly the bytes after the last
  newline seen so far. The buffer holds the decoded text of each chunk, decoded on its
  own. After the chunks \<open>22 C3\<close> and \<open>A9\<close> (an opening quote and the letter e with
  acute, no newline yet) nothing has been yielded and the buffer is \<open>22 FFFD FFFD\<close>,
  while the bytes received after the last newline are \<open>22 C3 A9\<close>, the text \<open>22 E9\<close>,
  which is what the buffer holds when the same bytes come in one chunk.
\<close>

theorem split_fragment_not_the_bytes_received:
  "outputBuffer (stdout_data h [0xA9] (stdout_data h [0x22, 0xC3] (s\<lparr>outputBuffer := []\<rparr>))) =
     [0x22, 0xFFFD, 0xFFFD] \<and>
   trace (stdout_data h [0xA9] (stdout_data h [0x22, 0xC3] (s\<lparr>outputBuffer := []\<rparr>))) = trace s \<and>
   outputBuffer (stdout_data h [0x22, 0xC3, 0xA9] (s\<lparr>outputBuffer := []\<rparr>)) = [0x22, 0xE9] \<and>
   toString ([0x22, 0xC3] @ [0xA9]) = [0x22, 0xE9] \<and>
   outputBuffer (stdout_data h [0xA9] (stdout_data h [0x22, 0xC3] (s\<lparr>outputBuffer := []\<rparr>))) \<noteq>
     toString ([0x22, 0xC3] @ [0xA9])"
proof -
  have first: "toString [0x22, 0xC3] = [0x22, 0xFFFD]"
    by (simp add: toString_def utf8_lead_def utf8_init_def utf16_units_def)
  have second: "toString [0xA9] = [0xFFFD]"
    by (simp add: toString_def utf8_lead_def utf8_init_def utf16_units_def)
  have whole: "toString [0x22, 0xC3, 0xA9] = [0x22, 0xE9]"
    by (simp add: toString_def utf8_lead_def utf8_init_def utf16_units_def)
  have open_text: "fragment t = t \<and> yielded h cbo t = []" if "NL \<notin> set t" for t cbo
    using that by (simp add: fragment_def rest_from_no_NL yielded_def complete_lines_def lines_from_no_NL)
  have one: "stdout_data h [0x22, 0xC3] (s\<lparr>outputBuffer := []\<rparr>) = s\<lparr>outputBuffer := [0x22, 0xFFFD]\<rparr>"
    using open_text [of "[0x22, 0xFFFD]" "messageCallback s"]
    by (simp add: stdout_data_eq first emit_def NL_def)
  have two: "stdout_data h [0xA9] (s\<lparr>outputBuffer := [0x22, 0xFFFD]\<rparr>) =
      s\<lparr>outputBuffer := [0x22, 0xFFFD, 0xFFFD]\<rparr>"
    using open_text [of "[0x22, 0xFFFD, 0xFFFD]" "messageCallback s"]
    by (simp add: stdout_data_eq second emit_def NL_def)
  have joined: "stdout_data h [0x22, 0xC3, 0xA9] (s\<lparr>outputBuffer := []\<rparr>) = s\<lparr>outputBuffer := [0x22, 0xE9]\<rparr>"
    using open_text [of "[0x22, 0xE9]" "messageCallback s"]
    by (simp add: stdout_data_eq whole emit_def NL_def)
  show ?thesis
    using whole by (simp add: one two joined)
qed

text \<open>
  C6. A line that \<open>JSON.parse\<close> rejects has one effect, a \<open>console.error\<close>, and the
  loop goes on: a chunk never changes the process handle or shows anything to the user,
  and the callback receives the decodable lines among the complete lines, in order,
  whatever lines were rejected between them. For the stream \<open>{"a":1}\<close>, \<open>NOT-JSON\<close>, \<open>{"b":2}\<close>, delivered in any
  chunks to a session with an empty buffer and a callback, with a \<open>JSON.parse\<close> that
  decodes the first and the third line and rejects the second: the callback is called
  exactly twice, with the first object and then the second; nothing is shown to the
  user, the process handle is unchanged and the buffer is empty.
\<close>

theorem malformed_line_skipped:
  assumes "json_parse h line_a = Some a"
    and "json_parse h (js ''NOT-JSON'') = None"
    and "json_parse h line_b = Some b"
    and "concat chunks = stream_bytes"
    and "outputBuffer s = []"
    and "messageCallback s = Some cb"
  shows "invocations (trace (feed h chunks s)) = invocations (trace s) @ [(cb, a), (cb, b)] \<and>
         filter user_visible (trace (feed h chunks s)) = filter user_visible (trace s) \<and>
         process (feed h chunks s) = process s \<and>
         messageCallback (feed h chunks s) = Some cb \<and>
         outputBuffer (feed h chunks s) = [] \<and>
         (\<forall>line s'. line \<noteq> [] \<and> json_parse h line = None \<longrightarrow>
            handle_line h line s' =
              emit [ConsoleError (ParseError (substring line 0 100 @ js ''...'') (int (length line)))] s') \<and>
         (\<forall>data s'. messageCallback s' = Some cb \<longrightarrow>
            process (stdout_data h data s') = process s' \<and>
            filter user_visible (trace (stdout_data h data s')) = filter user_visible (trace s') \<and>
            invocations (trace (stdout_data h data s')) =
              invocations (trace s') @
              concat (map (\<lambda>l. if trim l = [] then []
                                else (case json_parse h (trim l) of None \<Rightarrow> [] | Some r \<Rightarrow> [(cb, r)]))
                        (complete_lines (outputBuffer s' @ toString data))))"
proof -
  have decoded: "concat (map toString chunks) = terminated [line_a, js ''NOT-JSON'', line_b]"
    using assms(4) stream_ascii by (simp add: toString_concat_ascii stream_text)
  have fed: "feed h chunks s =
      (emit (yielded h (Some cb) (terminated [line_a, js ''NOT-JSON'', line_b])) s)
        \<lparr>outputBuffer := fragment (terminated [line_a, js ''NOT-JSON'', line_b])\<rparr>"
    using feed_eq [of s h chunks] assms(5,6) by (simp add: decoded)
  have lines: "complete_lines (terminated [line_a, js ''NOT-JSON'', line_b]) = [line_a, js ''NOT-JSON'', line_b]"
    using complete_lines_terminated [OF sample_lines_clean, of "[]"]
    by (simp add: complete_lines_def)
  have rest: "fragment (terminated [line_a, js ''NOT-JSON'', line_b]) = []"
    using fragment_terminated [of "[line_a, js ''NOT-JSON'', line_b]" "[]"]
    by (simp add: fragment_def)
  have y: "yielded h (Some cb) (terminated [line_a, js ''NOT-JSON'', line_b]) =
      line_effects h (Some cb) line_a @ line_effects h (Some cb) (js ''NOT-JSON'') @
      line_effects h (Some cb) line_b"
    by (simp add: yielded_def lines trim_samples)
  have inv: "invocations (yielded h (Some cb) (terminated [line_a, js ''NOT-JSON'', line_b])) = [(cb, a), (cb, b)]"
    by (simp add: y invocations_append invocations_line samples_nonempty assms(1,2,3))
  have "\<forall>line s'. line \<noteq> [] \<and> json_parse h line = None \<longrightarrow>
      handle_line h line s' =
        emit [ConsoleError (ParseError (substring line 0 100 @ js ''...'') (int (length line)))] s'"
    by (simp add: handle_line_def)
  moreover have "\<forall>data s'. messageCallback s' = Some cb \<longrightarrow>
      process (stdout_data h data s') = process s' \<and>
      filter user_visible (trace (stdout_data h data s')) = filter user_visible (trace s') \<and>
      invocations (trace (stdout_data h data s')) =
        invocations (trace s') @
        concat (map (\<lambda>l. if trim l = [] then []
                          else (case json_parse h (trim l) of None \<Rightarrow> [] | Some r \<Rightarrow> [(cb, r)]))
                  (complete_lines (outputBuffer s' @ toString data)))"
    by (simp add: stdout_data_eq emit_def invocations_append invocations_yielded user_visible_yielded)
  ultimately show ?thesis
    using assms(6)
    by (simp add: fed rest emit_def invocations_append inv user_visible_yielded)
qed

theorem malformed_line_skipped_witness:
  "json_parse sample_host line_a = Some (Obj [(js ''a'', Num 1)]) \<and>
   json_parse sample_host (js ''NOT-JSON'') = None \<and>
   json_parse sample_host line_b = Some (Obj [(js ''b'', Num 2)]) \<and>
   invocations (trace (feed sample_host
       [[0x7B, 0x22, 0x61], [0x22, 0x3A, 0x31, 0x7D, 0x0A, 0x4E, 0x4F, 0x54, 0x2D, 0x4A, 0x53, 0x4F,
        0x4E, 0x0A, 0x7B, 0x22, 0x62, 0x22, 0x3A], [0x32, 0x7D, 0x0A]]
       (new_session\<lparr>messageCallback := Some 7\<rparr>))) =
     [(7, Obj [(js ''a'', Num 1)]), (7, Obj [(js ''b'', Num 2)])]"
  using malformed_line_skipped [of sample_host "Obj [(js ''a'', Num 1)]" "Obj [(js ''b'', Num 2)]"
      "[[0x7B, 0x22, 0x61], [0x22, 0x3A, 0x31, 0x7D, 0x0A, 0x4E, 0x4F, 0x54, 0x2D, 0x4A, 0x53, 0x4F,
        0x4E, 0x0A, 0x7B, 0x22, 0x62, 0x22, 0x3A], [0x32, 0x7D, 0x0A]]"
      "new_session\<lparr>messageCallback := Some 7\<rparr>" 7]
  by (simp add: sample_host_def sample_parse_def line_a_def line_b_def js_def stream_bytes_def
        new_session_def invocations_def)

section \<open>The search path\<close>

lemma array_join_spec: "array_join xs sep = spec_joined sep xs"
  by (induction xs sep rule: array_join.induct) simp_all

lemma resolvedPaths_spec:
  "resolvedPaths h c = map (spec_resolve h (workspaceFolder c)) (spec_extra c)"
  by (auto simp: resolvedPaths_def spec_resolve_def spec_extra_def split: option.splits)

lemma pythonPathParts_spec:
  "pythonPathParts resolved h c = resolved @ [extensionPythonPath h c] @ spec_inherited c"
  by (simp add: pythonPathParts_def spec_inherited_def Let_def split: option.splits)

text \<open>
  The scan only appends to the array it is given: whatever the array, it pushes the same
  directories and throws or not alike. Induction along the recursion of the scan; the
  array is quantified inside the statement, since the recursive calls change it.
\<close>

lemma addSubdirs_pushes:
  fixes d1 d2 :: "jsstring list"
  shows "\<exists>pushed threw. \<forall>acc. addSubdirs h dir listing depth acc = (acc @ pushed, threw)"
  and "\<exists>pushed threw. \<forall>acc. addSubdirs_entries h dir entries depth acc = (acc @ pushed, threw)"
proof (induction h dir listing depth d1 and h dir entries depth d2
    rule: addSubdirs_addSubdirs_entries.induct)
  case (1 h dir listing depth acc)
  show ?case
  proof (cases "5 < depth")
    case True
    then have "\<forall>a. addSubdirs h dir listing depth a = (a @ [], False)"
      by simp
    then show ?thesis by blast
  next
    case False
    show ?thesis
    proof (cases listing)
      case None
      with False have "\<forall>a. addSubdirs h dir listing depth a = (a @ [], True)"
        by simp
      then show ?thesis by blast
    next
      case (Some entries)
      with False have "addSubdirs h dir listing depth a = addSubdirs_entries h dir entries depth a" for a
        by simp
      with "1.IH" [OF False Some] show ?thesis by simp
    qed
  qed
next
  case (2 h dir depth acc)
  have "\<forall>a. addSubdirs_entries h dir [] depth a = (a @ [], False)"
    by simp
  then show ?case by blast
next
  case (3 h dir name es depth acc)
  then show ?case by simp
next
  case (4 h dir name sub es depth acc)
  show ?case
  proof (cases "scanned_name name")
    case False
    with "4.IH"(3) show ?thesis by simp
  next
    case True
    define subdir where "subdir = path_join h [dir, name]"
    from "4.IH"(1) [OF True subdir_def]
    obtain pushed threw where deep: "\<And>a. addSubdirs h subdir sub (depth + 1) a = (a @ pushed, threw)"
      by blast
    have deep': "addSubdirs h subdir sub (Suc depth) a = (a @ pushed, threw)" for a
      using deep [of a] by (simp del: addSubdirs.simps)
    show ?thesis
    proof (cases threw)
      case True
      with \<open>scanned_name name\<close> have "\<forall>a. addSubdirs_entries h dir (DirEntry name sub # es) depth a =
          (a @ subdir # pushed, True)"
        by (simp add: deep' subdir_def [symmetric] del: addSubdirs.simps)
      then show ?thesis by blast
    next
      case False
      have "(acc @ [subdir] @ pushed, threw) = addSubdirs h subdir sub (depth + 1) (acc @ [subdir])"
        using deep [of "acc @ [subdir]"] by (simp del: addSubdirs.simps)
      moreover from False have "threw = False"
        by simp
      ultimately have "\<exists>pushed threw. \<forall>acc. addSubdirs_entries h dir es depth acc = (acc @ pushed, threw)"
        by (rule "4.IH"(2) [OF \<open>scanned_name name\<close> subdir_def])
      then
      obtain pushed' threw' where rest: "\<And>a. addSubdirs_entries h dir es depth a = (a @ pushed', threw')"
        by blast
      from False \<open>scanned_name name\<close>
      have "\<forall>a. addSubdirs_entries h dir (DirEntry name sub # es) depth a =
          (a @ subdir # pushed @ pushed', threw')"
        by (simp add: deep' subdir_def [symmetric] rest del: addSubdirs.simps)
      then show ?thesis by blast
    qed
  qed
qed

lemma addSubdirs_acc:
  "fst (addSubdirs h dir listing depth acc) = acc @ fst (addSubdirs h dir listing depth [])"
proof -
  obtain pushed threw where "\<And>a. addSubdirs h dir listing depth a = (a @ pushed, threw)"
    using addSubdirs_pushes(1) [of h dir listing depth] by blast
  then show ?thesis
    by (simp del: addSubdirs.simps)
qed

text \<open>
  C3, as amended. The construction in \<open>src/pythonManager.js\<close> is the specified one:
  the resolved extra paths in order, the extension-owned path, the inherited
  PYTHONPATH if and only if it is non-empty, joined with the delimiter; it reads nothing
  but its inputs. The second version of \<open>start\<close> inserts, between the extra paths and
  the extension-owned path, the subdirectories found by scanning the workspace in the
  file system; it gives the specified string when there is no workspace root or the
  workspace has no entries.
\<close>

theorem search_path_resolution:
  "pythonPathEnv h c = spec_search_path h c \<and>
   pythonPathEnv_variant h c root_listing =
     spec_joined (path_delimiter h)
       (map (spec_resolve h (workspaceFolder c)) (spec_extra c) @
        scanned_subdirs h c root_listing @
        [extensionPythonPath h c] @ spec_inherited c) \<and>
   pythonPathEnv_variant h (c\<lparr>workspaceFolder := None\<rparr>) root_listing =
     spec_search_path h (c\<lparr>workspaceFolder := None\<rparr>) \<and>
   pythonPathEnv_variant h c (Some []) = spec_search_path h c"
proof -
  have main: "pythonPathEnv h c = spec_search_path h c" for c
    by (simp add: pythonPathEnv_def spec_search_path_def array_join_spec resolvedPaths_spec
          pythonPathParts_spec)
  have rv: "resolvedPaths_variant h c l =
      map (spec_resolve h (workspaceFolder c)) (spec_extra c) @ scanned_subdirs h c l" for c l
  proof (cases "truthy_str (workspaceFolder c)")
    case False
    then show ?thesis
      by (simp add: resolvedPaths_variant_def scanned_subdirs_def resolvedPaths_spec truthy_str_def
            split: option.splits)
  next
    case True
    then obtain w where w: "workspaceFolder c = Some w" "w \<noteq> []"
      by (auto simp: truthy_str_def split: option.splits)
    have "fst (addSubdirs h w l 0 (resolvedPaths h c)) =
        resolvedPaths h c @ fst (addSubdirs h w l 0 [])"
      by (rule addSubdirs_acc)
    with w show ?thesis
      by (simp add: resolvedPaths_variant_def scanned_subdirs_def resolvedPaths_spec
            del: addSubdirs.simps)
  qed
  have variant: "pythonPathEnv_variant h c l =
      spec_joined (path_delimiter h)
        (map (spec_resolve h (workspaceFolder c)) (spec_extra c) @ scanned_subdirs h c l @
         [extensionPythonPath h c] @ spec_inherited c)" for c l
    by (simp add: pythonPathEnv_variant_def array_join_spec rv pythonPathParts_spec)
  have none: "scanned_subdirs h (c\<lparr>workspaceFolder := None\<rparr>) root_listing = []"
    by (simp add: scanned_subdirs_def)
  have empty: "scanned_subdirs h c (Some []) = []"
    by (simp add: scanned_subdirs_def split: option.splits)
  show ?thesis
    using main [of c] variant [of c root_listing] variant [of "c\<lparr>workspaceFolder := None\<rparr>" root_listing]
      variant [of c "Some []"]
    by (simp add: none empty spec_search_path_def extensionPythonPath_def spec_inherited_def
          spec_extra_def)
qed

text \<open>
  The example of the specification on the sample host: the extra paths \<open>lib\<close> and
  \<open>/abs/x\<close>, the workspace \<open>/ws\<close>, the extension at \<open>/ext\<close>, the inherited path \<open>/old\<close>.
\<close>

lemma search_path_example:
  "pythonPathEnv sample_host sample_config = js ''/ws/lib:/abs/x:/ext/python:/old''"
  by (simp add: pythonPathEnv_def resolvedPaths_def pythonPathParts_def extensionPythonPath_def
        startsWith_def sample_host_def sample_config_def js_def Let_def)

text \<open>
  C3 as stated fails on the second version of \<open>start\<close>: with the workspace \<open>/ws\<close>
  holding one directory \<open>pkg\<close>, the string it builds has the entry \<open>/ws/pkg\<close>, which the
  specified string has not.
\<close>

theorem variant_scans_file_system:
  "pythonPathEnv_variant sample_host sample_config (Some [DirEntry (js ''pkg'') (Some [])]) \<noteq>
     spec_search_path sample_host sample_config"
  by (simp add: pythonPathEnv_variant_def resolvedPaths_variant_def resolvedPaths_def
        pythonPathParts_def extensionPythonPath_def spec_search_path_def spec_resolve_def
        spec_extra_def spec_inherited_def scanned_name_def startsWith_def
        sample_host_def sample_config_def js_def Let_def)

section \<open>The life cycle\<close>

text \<open>
  What holds of \<open>start\<close>: while a process handle is set it only rebinds the callback
  and logs; two calls in a row call \<open>spawn\<close> once; the responses decoded afterwards go to
  the callback of the last call.
\<close>

lemma start_while_running:
  "process s = Some p \<Longrightarrow>
   start h c spawned onMessage s = emit [ConsoleLog AlreadyRunning] (s\<lparr>messageCallback := onMessage\<rparr>)"
  by (simp add: start_def)

lemma start_twice:
  "process s = None \<Longrightarrow>
   concat (map spawned_child (trace (start h c' spawned' cb2 (start h c (Some p) cb1 s)))) =
     concat (map spawned_child (trace s)) @ [p] \<and>
   process (start h c' spawned' cb2 (start h c (Some p) cb1 s)) = Some p \<and>
   messageCallback (start h c' spawned' cb2 (start h c (Some p) cb1 s)) = cb2"
  by (simp add: start_def emit_def Let_def)

lemma callback_rebound:
  "invocations (trace (stdout_data h data (start h c spawned (Some cb) s))) =
     invocations (trace s) @
     invocations (yielded h (Some cb)
        (outputBuffer (start h c spawned (Some cb) s) @ toString data))"
  by (simp add: stdout_data_eq emit_def invocations_def start_def Let_def split: option.splits)

text \<open>
  C4 says that at most one worker process exists per session at any time. The
  \<open>'close'\<close> handler clears the handle whichever child closed. Run: \<open>start\<close> (child 1),
  \<open>dispose\<close>, \<open>start\<close> (child 2), then the \<open>'close'\<close> event of child 1, killed by the
  signal (code \<open>null\<close>): the handle of child 2 is cleared although child 2 runs. The next
  \<open>start\<close> spawns child 3: children 2 and 3 both exist, neither killed nor closed.
\<close>

theorem stale_close_leaves_two_workers:
  "existing_workers (trace (run h new_session
      [CallStart c (Some child1) cb, CallDispose, CallStart c (Some child2) cb,
       CloseEvent 1 None, CallStart c (Some child3) cb])) = [child2, child3] \<and>
   process (run h new_session
      [CallStart c (Some child1) cb, CallDispose, CallStart c (Some child2) cb]) = Some child2 \<and>
   process (run h new_session
      [CallStart c (Some child1) cb, CallDispose, CallStart c (Some child2) cb,
       CloseEvent 1 None]) = None \<and>
   process (run h new_session
      [CallStart c (Some child1) cb, CallDispose, CallStart c (Some child2) cb,
       CloseEvent 1 None, CallStart c (Some child3) cb]) = Some child3"
  by (simp add: run_def start_def dispose_def on_close_def emit_def new_session_def Let_def
        existing_workers_def child1_def child2_def child3_def)

text \<open>
  C7. The \<open>'close'\<close> handler clears the process handle and empties the buffer, so the
  manager is not running; it logs the exit code, and shows the warning that recommends
  a restart if and only if the code is neither \<open>0\<close> nor \<open>null\<close>. A \<open>start\<close> after it calls
  \<open>spawn\<close> and holds the child that \<open>spawn\<close> returns.
\<close>

theorem close_handler_resets:
  "process (on_close code s) = None \<and>
   isRunning (on_close code s) = False \<and>
   outputBuffer (on_close code s) = [] \<and>
   messageCallback (on_close code s) = messageCallback s \<and>
   trace (on_close code s) =
     trace s @ [ConsoleLog (ExitedWithCode code)] @
     (if code \<noteq> Some 0 \<and> code \<noteq> None then [ShowWarningMessage (ExitedUnexpectedly code)] else []) \<and>
   filter user_visible (trace (on_close code s)) =
     filter user_visible (trace s) @
     (if code \<noteq> Some 0 \<and> code \<noteq> None then [ShowWarningMessage (ExitedUnexpectedly code)] else []) \<and>
   process (start h c (Some p) onMessage (on_close code s)) = Some p \<and>
   concat (map spawned_child (trace (start h c (Some p) onMessage (on_close code s)))) =
     concat (map spawned_child (trace s)) @ [p]"
  by (simp add: on_close_def start_def emit_def isRunning_def Let_def)

section \<open>Sending commands\<close>

text \<open>
  C5. \<open>sendCommand\<close> returns \<open>false\<close> and writes nothing when there is no process (or
  the process has no \<open>stdin\<close>): before any \<open>start\<close>, after \<open>dispose\<close>, after the
  \<open>'close'\<close> handler. With a process it writes the serialized command followed by a
  newline and returns \<open>true\<close>; when the write or the serialization throws it logs,
  shows the communication error and returns \<open>false\<close>. It always returns a boolean.
\<close>

theorem sendCommand_contract:
  "(process s = None \<longrightarrow>
      sendCommand h cmd s =
        (False, emit [ConsoleError (NotRunningCannotSend (get_property cmd (js ''command'')))] s)) \<and>
   (\<forall>p. process s = Some p \<and> \<not> stdin_present p \<longrightarrow>
      sendCommand h cmd s =
        (False, emit [ConsoleError (NotRunningCannotSend (get_property cmd (js ''command'')))] s)) \<and>
   (\<forall>p text. process s = Some p \<and> stdin_present p \<and> json_stringify h (Obj cmd) = Some text \<and>
        \<not> stdin_write_throws h (pid p) (text @ [NL]) \<longrightarrow>
      sendCommand h cmd s = (True, emit [StdinWrite (pid p) (text @ [NL])] s)) \<and>
   (\<forall>p text. process s = Some p \<and> stdin_present p \<and> json_stringify h (Obj cmd) = Some text \<and>
        stdin_write_throws h (pid p) (text @ [NL]) \<longrightarrow>
      sendCommand h cmd s =
        (False, emit [ConsoleError SendError, ShowErrorMessage FailedToCommunicate] s)) \<and>
   (\<forall>p. process s = Some p \<and> stdin_present p \<and> json_stringify h (Obj cmd) = None \<longrightarrow>
      sendCommand h cmd s =
        (False, emit [ConsoleError SendError, ShowErrorMessage FailedToCommunicate] s)) \<and>
   fst (sendCommand h cmd new_session) = False \<and>
   filter stdin_write (trace (snd (sendCommand h cmd new_session))) = [] \<and>
   fst (sendCommand h cmd (dispose s)) = False \<and>
   filter stdin_write (trace (snd (sendCommand h cmd (dispose s)))) = filter stdin_write (trace s) \<and>
   fst (sendCommand h cmd (on_close code s)) = False \<and>
   filter stdin_write (trace (snd (sendCommand h cmd (on_close code s)))) = filter stdin_write (trace s)"
  by (simp add: sendCommand_def new_session_def dispose_def on_close_def emit_def Let_def
           split: option.splits)

theorem sendCommand_contract_witness:
  "sendCommand sample_host [(js ''command'', Str (js ''get_variables''))] new_session =
     (False, emit [ConsoleError (NotRunningCannotSend (Str (js ''get_variables'')))] new_session) \<and>
   sendCommand sample_host [(js ''command'', Str (js ''get_variables''))]
       (running_session\<lparr>process := Some \<lparr>pid = 1, stdin_present = False\<rparr>\<rparr>) =
     (False, emit [ConsoleError (NotRunningCannotSend (Str (js ''get_variables'')))]
        (running_session\<lparr>process := Some \<lparr>pid = 1, stdin_present = False\<rparr>\<rparr>)) \<and>
   sendCommand sample_host [(js ''command'', Str (js ''get_variables''))] running_session =
     (True, emit [StdinWrite 1 ([0x7B, 0x22] @ js ''command'' @ [0x22, 0x3A, 0x22] @
                    js ''get_variables'' @ [0x22, 0x7D, 0x0A])] running_session) \<and>
   sendCommand (sample_host\<lparr>stdin_write_throws := (\<lambda>p text. True)\<rparr>)
       [(js ''command'', Str (js ''get_variables''))] running_session =
     (False, emit [ConsoleError SendError, ShowErrorMessage FailedToCommunicate] running_session) \<and>
   sendCommand sample_host [(js ''command'', Null)] running_session =
     (False, emit [ConsoleError SendError, ShowErrorMessage FailedToCommunicate] running_session)"
  using sendCommand_contract [of new_session sample_host "[(js ''command'', Str (js ''get_variables''))]"]
    sendCommand_contract [of "running_session\<lparr>process := Some \<lparr>pid = 1, stdin_present = False\<rparr>\<rparr>"
       sample_host "[(js ''command'', Str (js ''get_variables''))]"]
    sendCommand_contract [of running_session sample_host "[(js ''command'', Str (js ''get_variables''))]"]
    sendCommand_contract [of running_session "sample_host\<lparr>stdin_write_throws := (\<lambda>p text. True)\<rparr>"
       "[(js ''command'', Str (js ''get_variables''))]"]
    sendCommand_contract [of running_session sample_host "[(js ''command'', Null)]"]
  by (simp add: new_session_def running_session_def child1_def sample_host_def sample_stringify_def
        get_property_def js_def NL_def)

text \<open>
  C10. \<open>getDetails\<close> sends the command with the properties \<open>command\<close> and \<open>name\<close>, and
  with a property \<open>path\<close> if and only if the path argument is truthy: omitted
  (\<open>undefined\<close>), \<open>null\<close> and the empty string give a command without the key. Its
  result is the result of \<open>sendCommand\<close>.
\<close>

theorem getDetails_command:
  "getDetails h varName path_arg s =
     sendCommand h
       ([(js ''command'', Str (js ''get_details'')), (js ''name'', varName)] @
        (if truthy path_arg then [(js ''path'', path_arg)] else [])) s \<and>
   getDetails h varName Undefined s =
     sendCommand h [(js ''command'', Str (js ''get_details'')), (js ''name'', varName)] s \<and>
   getDetails h varName Null s =
     sendCommand h [(js ''command'', Str (js ''get_details'')), (js ''name'', varName)] s \<and>
   getDetails h varName (Str []) s =
     sendCommand h [(js ''command'', Str (js ''get_details'')), (js ''name'', varName)] s \<and>
   map_of ([(js ''command'', Str (js ''get_details'')), (js ''name'', varName)] @
        (if truthy path_arg then [(js ''path'', path_arg)] else [])) (js ''path'') =
     (if truthy path_arg then Some path_arg else None)"
  by (simp add: getDetails_def set_property_def js_def Let_def)

section \<open>Disposal\<close>

text \<open>
  C8. \<open>dispose\<close> is total and idempotent: with a process it calls \<open>kill\<close> on it and
  clears the handle; without one it changes nothing. After one call or two, and on a
  manager that was never started, the handle is \<open>null\<close>.
\<close>

theorem dispose_idempotent_total:
  "dispose (dispose s) = dispose s \<and>
   process (dispose s) = None \<and>
   dispose new_session = new_session \<and>
   (process s = None \<longrightarrow> dispose s = s) \<and>
   (\<forall>p. process s = Some p \<longrightarrow> dispose s = (emit [Kill (pid p)] s)\<lparr>process := None\<rparr>)"
  by (simp add: dispose_def new_session_def emit_def split: option.splits)

theorem dispose_idempotent_total_witness:
  "process running_session = Some child1 \<and>
   trace (dispose running_session) = [Kill 1] \<and>
   process (dispose running_session) = None \<and>
   dispose (dispose running_session) = dispose running_session \<and>
   process new_session = None \<and> dispose new_session = new_session"
  using dispose_idempotent_total [of running_session]
  by (simp add: running_session_def child1_def emit_def new_session_def dispose_def)

text \<open>
  C9. \<open>dispose\<close> changes the process handle and nothing else of the session (its one
  effect is the \<open>kill\<close>): the buffer and the callback are as before. A buffered fragment
  survives \<open>dispose\<close>, and a \<open>sendCommand\<close> or an \<open>'error'\<close> event after it; it is
  emptied by the \<open>'close'\<close> handler, or by the next \<open>start\<close>.
\<close>

theorem dispose_frame:
  "dispose s =
     s\<lparr>process := None,
       trace := trace s @ (case process s of None \<Rightarrow> [] | Some p \<Rightarrow> [Kill (pid p)])\<rparr> \<and>
   outputBuffer (dispose s) = outputBuffer s \<and>
   messageCallback (dispose s) = messageCallback s \<and>
   outputBuffer (snd (sendCommand h cmd (dispose s))) = outputBuffer s \<and>
   outputBuffer (on_error message (dispose s)) = outputBuffer s \<and>
   outputBuffer (on_close code (dispose s)) = [] \<and>
   outputBuffer (start h c spawned onMessage (dispose s)) = []"
  by (simp add: dispose_def on_close_def start_def on_error_def sendCommand_def emit_def Let_def
        split: option.splits)

end
